theory Spec2Isabelle
  imports
    Complex_Main
    "HOL-Library.Char_ord"
    "HOL-Library.List_Lexorder"
    "HOL-Library.Product_Lexorder"
begin

section \<open>JavaScript values used by the frontend\<close>

text \<open>
  A JavaScript string is a sequence of UTF-16 code units. Text typed by the user is
  modelled as the list of its code units; string literals of the program are ASCII and
  are written as HOL strings, converted by \<open>lit\<close>.
\<close>

type_synonym jsstring = "nat list"

definition lit :: "string \<Rightarrow> jsstring" where
  "lit s = map of_char s"

text \<open>
  The code units removed by \<open>String.prototype.trim\<close>: the WhiteSpace and
  LineTerminator productions of ECMAScript (TAB, LF, VT, FF, CR, SP, NBSP, the Unicode
  space separators, LS, PS and the byte order mark).
\<close>

definition isWhiteSpace :: "nat \<Rightarrow> bool" where
  "isWhiteSpace c \<longleftrightarrow>
     c = 9 \<or> c = 10 \<or> c = 11 \<or> c = 12 \<or> c = 13 \<or> c = 32 \<or> c = 160 \<or> c = 5760 \<or>
     (8192 \<le> c \<and> c \<le> 8202) \<or> c = 8232 \<or> c = 8233 \<or> c = 8239 \<or> c = 8287 \<or>
     c = 12288 \<or> c = 65279"

definition trimStart :: "jsstring \<Rightarrow> jsstring" where
  "trimStart s = dropWhile isWhiteSpace s"

definition trimEnd :: "jsstring \<Rightarrow> jsstring" where
  "trimEnd s = rev (dropWhile isWhiteSpace (rev s))"

definition trim :: "jsstring \<Rightarrow> jsstring" where
  "trim s = trimEnd (trimStart s)"

text \<open>Truthiness of a string: only the empty string is falsy.\<close>

definition truthy_str :: "jsstring \<Rightarrow> bool" where
  "truthy_str s \<longleftrightarrow> s \<noteq> []"


section \<open>SearchInput.jsx\<close>

text \<open>
  The component holds the text of the input field (\<open>query\<close>) and receives the props
  \<open>onSearch\<close> and \<open>loading\<close>. \<open>handleSubmit\<close> always cancels the browser's form
  submission and calls \<open>onSearch\<close> at most once; the calls it makes are returned in order.
\<close>

datatype submit_effect = PreventDefault | OnSearch jsstring

definition handleSubmit :: "jsstring \<Rightarrow> bool \<Rightarrow> submit_effect list" where
  "handleSubmit query loading =
     PreventDefault #
     (if truthy_str (trim query) \<and> \<not> loading then [OnSearch (trim query)] else [])"

text \<open>The submit button is disabled by \<open>loading || !query.trim()\<close>.\<close>

definition submit_disabled :: "jsstring \<Rightarrow> bool \<Rightarrow> bool" where
  "submit_disabled query loading \<longleftrightarrow> loading \<or> \<not> truthy_str (trim query)"

text \<open>The strings handed to \<open>onSearch\<close> by one submission.\<close>

definition searches :: "submit_effect list \<Rightarrow> jsstring list" where
  "searches es = concat (map (\<lambda>e. case e of OnSearch q \<Rightarrow> [q] | PreventDefault \<Rightarrow> []) es)"


section \<open>Values passed to the API client\<close>

text \<open>
  JSON-like JavaScript values. \<open>undefined\<close> (an omitted argument) is \<open>None\<close> of an
  option type; a parameter default applies to \<open>undefined\<close> only.
\<close>

datatype json =
    JNull
  | JBool bool
  | JNum rat
  | JStr jsstring
  | JArr "json list"
  | JObj "(string \<times> json) list"

fun truthy :: "json \<Rightarrow> bool" where
  "truthy JNull = False"
| "truthy (JBool b) = b"
| "truthy (JNum n) = (n \<noteq> 0)"
| "truthy (JStr s) = truthy_str s"
| "truthy (JArr xs) = True"
| "truthy (JObj kvs) = True"

definition default_arg :: "'a \<Rightarrow> 'a option \<Rightarrow> 'a" where
  "default_arg d v = (case v of None \<Rightarrow> d | Some x \<Rightarrow> x)"

text \<open>A Blob is a MIME type and a byte sequence; a File is a Blob with a name.\<close>

record blob =
  blob_type :: string
  blob_bytes :: "nat list"

record js_file =
  file_name :: jsstring
  file_blob :: blob

definition blob_size :: "blob \<Rightarrow> nat" where
  "blob_size b = length (blob_bytes b)"

definition file_size :: "js_file \<Rightarrow> nat" where
  "file_size f = blob_size (file_blob f)"

text \<open>
  \<open>new Blob(parts, {type})\<close>: the bytes of the parts in order, under the given type. The
  types of the parts are dropped and their bytes are not converted.
\<close>

definition new_Blob :: "blob list \<Rightarrow> string \<Rightarrow> blob" where
  "new_Blob parts t = \<lparr>blob_type = t, blob_bytes = concat (map blob_bytes parts)\<rparr>"

text \<open>
  An entry of a FormData: \<open>append(name, value)\<close> stores a plain value (which the browser
  converts to a string), \<open>append(name, blob, filename)\<close> stores a file part that is sent
  with the given filename and the Blob's type as its content type.
\<close>

datatype form_entry =
    FValue string json
  | FFile string blob jsstring

definition append_file :: "string \<Rightarrow> js_file \<Rightarrow> form_entry" where
  "append_file name f = FFile name (file_blob f) (file_name f)"

datatype body = NoBody | JsonBody json | FormBody "form_entry list"

datatype http_method = GET | POST

record request_config =
  req_method :: http_method
  url :: jsstring
  baseURL :: jsstring
  headers :: "string \<rightharpoonup> jsstring"
  params :: "(string \<times> json) list"
  data :: body
  timeout :: nat


section \<open>services/api.js\<close>

text \<open>
  \<open>import.meta.env.VITE_API_URL\<close> is a parameter of the model (\<open>None\<close> when the
  variable is not set).
\<close>

definition API_BASE_URL :: "jsstring option \<Rightarrow> jsstring" where
  "API_BASE_URL vite_api_url =
     (case vite_api_url of
        None \<Rightarrow> lit ''http://localhost:8000''
      | Some u \<Rightarrow> if truthy_str u then u else lit ''http://localhost:8000'')"

record axios_defaults =
  d_baseURL :: jsstring
  d_headers :: "string \<rightharpoonup> jsstring"
  d_timeout :: nat

definition api :: "jsstring option \<Rightarrow> axios_defaults" where
  "api vite_api_url =
     \<lparr>d_baseURL = API_BASE_URL vite_api_url,
      d_headers = [''Content-Type'' \<mapsto> lit ''application/json''],
      d_timeout = 30000\<rparr>"

text \<open>
  \<open>api.post(url, data, config)\<close> and \<open>api.get(url, config)\<close>: the request configuration
  axios builds from the instance defaults and the per-call configuration. A per-call
  header overrides the default of the same name; no call of this file passes a timeout,
  so the instance default is the timeout of every request.
\<close>

definition api_post ::
  "jsstring option \<Rightarrow> jsstring \<Rightarrow> body \<Rightarrow> (string \<rightharpoonup> jsstring) \<Rightarrow> request_config" where
  "api_post env u d hs =
     \<lparr>req_method = POST, url = u, baseURL = d_baseURL (api env),
      headers = d_headers (api env) ++ hs, params = [], data = d,
      timeout = d_timeout (api env)\<rparr>"

definition api_get ::
  "jsstring option \<Rightarrow> jsstring \<Rightarrow> (string \<times> json) list \<Rightarrow> request_config" where
  "api_get env u ps =
     \<lparr>req_method = GET, url = u, baseURL = d_baseURL (api env),
      headers = d_headers (api env), params = ps, data = NoBody,
      timeout = d_timeout (api env)\<rparr>"

text \<open>The request interceptor, given the contents of \<open>localStorage\<close>.\<close>

definition request_interceptor ::
  "(string \<rightharpoonup> jsstring) \<Rightarrow> request_config \<Rightarrow> request_config" where
  "request_interceptor localStorage config =
     (case localStorage ''session_id'' of
        None \<Rightarrow> config
      | Some sessionId \<Rightarrow>
          if truthy_str sessionId
          then config\<lparr>headers := (headers config)(''X-Session-ID'' \<mapsto> sessionId)\<rparr>
          else config)"

text \<open>
  The exported functions. Each is modelled by the request it hands to the client; the
  value it returns to its caller is the \<open>data\<close> of the response (see \<open>axios_request\<close>).
\<close>

definition queryText ::
  "jsstring option \<Rightarrow> jsstring \<Rightarrow> json option \<Rightarrow> json option \<Rightarrow> request_config" where
  "queryText env qtext filters maxResults =
     api_post env (lit ''/api/query/text'')
       (JsonBody (JObj
          [(''query_text'', JStr qtext),
           (''query_type'', JStr (lit ''text'')),
           (''filters'', default_arg (JObj []) filters),
           (''max_results'', default_arg (JNum 10) maxResults)]))
       Map.empty"

definition multipart :: "string \<rightharpoonup> jsstring" where
  "multipart = [''Content-Type'' \<mapsto> lit ''multipart/form-data'']"

definition queryImage ::
  "jsstring option \<Rightarrow> js_file \<Rightarrow> jsstring option \<Rightarrow> json option \<Rightarrow> request_config" where
  "queryImage env imageFile qtext maxResults =
     api_post env (lit ''/api/query/image'')
       (FormBody
          ([append_file ''image'' imageFile] @
           (case qtext of
              None \<Rightarrow> []
            | Some q \<Rightarrow> if truthy_str q then [FValue ''query_text'' (JStr q)] else []) @
           [FValue ''max_results'' (default_arg (JNum 10) maxResults)]))
       multipart"

definition queryVoice ::
  "jsstring option \<Rightarrow> blob \<Rightarrow> json option \<Rightarrow> request_config" where
  "queryVoice env audioBlob maxResults =
     api_post env (lit ''/api/query/voice'')
       (FormBody
          [FFile ''audio'' audioBlob (lit ''recording.wav''),
           FValue ''max_results'' (default_arg (JNum 10) maxResults)])
       multipart"

record multimodal_data =
  md_queryText :: "jsstring option"
  md_imageFile :: "js_file option"
  md_audioBlob :: "blob option"
  md_maxResults :: "json option"

definition queryMultimodal :: "jsstring option \<Rightarrow> multimodal_data \<Rightarrow> request_config" where
  "queryMultimodal env d =
     api_post env (lit ''/api/query/multimodal'')
       (FormBody
          ((case md_queryText d of
              None \<Rightarrow> []
            | Some q \<Rightarrow> if truthy_str q then [FValue ''query_text'' (JStr q)] else []) @
           (case md_imageFile d of None \<Rightarrow> [] | Some f \<Rightarrow> [append_file ''image'' f]) @
           (case md_audioBlob d of
              None \<Rightarrow> []
            | Some b \<Rightarrow> [FFile ''audio'' b (lit ''recording.wav'')]) @
           [FValue ''max_results''
              (case md_maxResults d of
                 None \<Rightarrow> JNum 10
               | Some m \<Rightarrow> if truthy m then m else JNum 10)]))
       multipart"

definition getProduct :: "jsstring option \<Rightarrow> jsstring \<Rightarrow> request_config" where
  "getProduct env productId = api_get env (lit ''/api/products/'' @ productId) []"

definition getProductReviews ::
  "jsstring option \<Rightarrow> jsstring \<Rightarrow> json option \<Rightarrow> request_config" where
  "getProductReviews env productId limit =
     api_get env (lit ''/api/products/'' @ productId @ lit ''/reviews'')
       [(''limit'', default_arg (JNum 10) limit)]"

definition getProductPrices :: "jsstring option \<Rightarrow> jsstring \<Rightarrow> request_config" where
  "getProductPrices env productId =
     api_get env (lit ''/api/products/'' @ productId @ lit ''/prices'') []"

definition getRecommendations ::
  "jsstring option \<Rightarrow> json option \<Rightarrow> json option \<Rightarrow> json option \<Rightarrow> request_config" where
  "getRecommendations env userId sessionId limit =
     api_get env (lit ''/api/recommendations'')
       [(''user_id'', default_arg JNull userId),
        (''session_id'', default_arg JNull sessionId),
        (''limit'', default_arg (JNum 10) limit)]"

definition healthCheck :: "jsstring option \<Rightarrow> request_config" where
  "healthCheck env = api_get env (lit ''/health'') []"

text \<open>Every call that can be made through the exported functions of the module.\<close>

datatype api_call =
    QueryText jsstring "json option" "json option"
  | QueryImage js_file "jsstring option" "json option"
  | QueryVoice blob "json option"
  | QueryMultimodal multimodal_data
  | GetProduct jsstring
  | GetProductReviews jsstring "json option"
  | GetProductPrices jsstring
  | GetRecommendations "json option" "json option" "json option"
  | HealthCheck

fun request_of :: "jsstring option \<Rightarrow> api_call \<Rightarrow> request_config" where
  "request_of env (QueryText q f m) = queryText env q f m"
| "request_of env (QueryImage i q m) = queryImage env i q m"
| "request_of env (QueryVoice b m) = queryVoice env b m"
| "request_of env (QueryMultimodal d) = queryMultimodal env d"
| "request_of env (GetProduct i) = getProduct env i"
| "request_of env (GetProductReviews i l) = getProductReviews env i l"
| "request_of env (GetProductPrices i) = getProductPrices env i"
| "request_of env (GetRecommendations u s l) = getRecommendations env u s l"
| "request_of env HealthCheck = healthCheck env"


section \<open>The client's handling of a request\<close>

text \<open>
  What axios does with a request is not code of this repository. It is modelled from the
  documented behaviour of the library: \<open>timeout\<close> is the number of milliseconds after
  which the request is aborted and rejected with a timeout error, \<open>0\<close> meaning no
  timeout; a response with a status outside 200..299 is rejected. The server's behaviour
  is an input: it never answers, or it answers after some milliseconds with a status and
  a payload. A call that never settles has the result \<open>None\<close>.
\<close>

datatype server_behaviour = NoReply | Reply nat nat json

datatype api_error = TimeoutError nat | HttpError nat json

definition axios_dispatch ::
  "request_config \<Rightarrow> server_behaviour \<Rightarrow> (api_error + json) option" where
  "axios_dispatch config b =
     (case b of
        NoReply \<Rightarrow>
          if timeout config = 0 then None else Some (Inl (TimeoutError (timeout config)))
      | Reply ms status payload \<Rightarrow>
          if timeout config \<noteq> 0 \<and> timeout config < ms
          then Some (Inl (TimeoutError (timeout config)))
          else if 200 \<le> status \<and> status < 300 then Some (Inr payload)
          else Some (Inl (HttpError status payload)))"

text \<open>
  A call through the shared client: the request interceptor runs first, then the request
  is dispatched. The response interceptor only logs and passes the outcome on.
\<close>

definition outgoing ::
  "jsstring option \<Rightarrow> (string \<rightharpoonup> jsstring) \<Rightarrow> api_call \<Rightarrow> request_config" where
  "outgoing env localStorage c = request_interceptor localStorage (request_of env c)"

definition axios_request ::
  "jsstring option \<Rightarrow> (string \<rightharpoonup> jsstring) \<Rightarrow> (request_config \<Rightarrow> server_behaviour) \<Rightarrow>
     api_call \<Rightarrow> (api_error + json) option" where
  "axios_request env localStorage server c =
     axios_dispatch (outgoing env localStorage c) (server (outgoing env localStorage c))"


section \<open>VoiceRecorder.jsx\<close>

text \<open>
  \<open>chunksRef.current\<close> collects the non-empty pieces the MediaRecorder delivers, each a
  Blob in whatever encoding the browser records. When the recorder stops, the pieces are
  wrapped in one Blob that is handed to \<open>onRecordingComplete\<close>.
\<close>

definition ondataavailable :: "blob list \<Rightarrow> blob \<Rightarrow> blob list" where
  "ondataavailable chunks e_data = (if blob_size e_data > 0 then chunks @ [e_data] else chunks)"

definition recorded_chunks :: "blob list \<Rightarrow> blob list" where
  "recorded_chunks events = foldl ondataavailable [] events"

definition onstop :: "blob list \<Rightarrow> blob" where
  "onstop chunks = new_Blob chunks ''audio/wav''"


section \<open>HomePage.jsx\<close>

text \<open>
  The handlers of the page, as the sequence of effects each one performs. A handler that
  awaits a call which never settles performs nothing after the request.
\<close>

datatype js_error = ApiError api_error | TypeError

datatype ui_effect =
    SetLoading bool
  | Request request_config
  | Navigate jsstring json "json option"
  | ToastError jsstring
  | ConsoleError js_error
  | SetQuery jsstring
  | SetResults json

text \<open>
  Reading a property: \<open>undefined\<close> when it is absent, a TypeError when the value is
  \<open>null\<close>.
\<close>

fun get_prop :: "json \<Rightarrow> string \<Rightarrow> js_error + json option" where
  "get_prop JNull k = Inl TypeError"
| "get_prop (JObj kvs) k = Inr (map_of kvs k)"
| "get_prop v k = Inr None"

definition handleTextSearch ::
  "jsstring option \<Rightarrow> (string \<rightharpoonup> jsstring) \<Rightarrow> (request_config \<Rightarrow> server_behaviour) \<Rightarrow>
     jsstring \<Rightarrow> ui_effect list" where
  "handleTextSearch env ls server query =
     SetLoading True #
     Request (outgoing env ls (QueryText query None None)) #
     (case axios_request env ls server (QueryText query None None) of
        None \<Rightarrow> []
      | Some (Inr results) \<Rightarrow>
          [Navigate (lit ''/search'') results (Some (JStr query)), SetLoading False]
      | Some (Inl err) \<Rightarrow>
          [ToastError (lit ''Search failed. Please try again.''),
           ConsoleError (ApiError err), SetLoading False])"

definition handleImageSearch ::
  "jsstring option \<Rightarrow> (string \<rightharpoonup> jsstring) \<Rightarrow> (request_config \<Rightarrow> server_behaviour) \<Rightarrow>
     js_file option \<Rightarrow> ui_effect list" where
  "handleImageSearch env ls server imageFile =
     (case imageFile of
        None \<Rightarrow> []
      | Some f \<Rightarrow>
          SetLoading True #
          Request (outgoing env ls (QueryImage f None None)) #
          (case axios_request env ls server (QueryImage f None None) of
             None \<Rightarrow> []
           | Some (Inr results) \<Rightarrow>
               [Navigate (lit ''/search'') results (Some (JStr (lit ''Image search''))),
                SetLoading False]
           | Some (Inl err) \<Rightarrow>
               [ToastError (lit ''Image search failed. Please try again.''),
                ConsoleError (ApiError err), SetLoading False]))"

definition handleVoiceSearch ::
  "jsstring option \<Rightarrow> (string \<rightharpoonup> jsstring) \<Rightarrow> (request_config \<Rightarrow> server_behaviour) \<Rightarrow>
     blob \<Rightarrow> ui_effect list" where
  "handleVoiceSearch env ls server audioBlob =
     SetLoading True #
     Request (outgoing env ls (QueryVoice audioBlob None)) #
     (case axios_request env ls server (QueryVoice audioBlob None) of
        None \<Rightarrow> []
      | Some (Inr results) \<Rightarrow>
          (case get_prop results ''message'' of
             Inr message \<Rightarrow> [Navigate (lit ''/search'') results message, SetLoading False]
           | Inl err \<Rightarrow>
               [ToastError (lit ''Voice search failed. Please try again.''),
                ConsoleError err, SetLoading False])
      | Some (Inl err) \<Rightarrow>
          [ToastError (lit ''Voice search failed. Please try again.''),
           ConsoleError (ApiError err), SetLoading False])"

text \<open>SearchPage.jsx: the handler behind the search bar of the results page.\<close>

definition handleSearch ::
  "jsstring option \<Rightarrow> (string \<rightharpoonup> jsstring) \<Rightarrow> (request_config \<Rightarrow> server_behaviour) \<Rightarrow>
     jsstring \<Rightarrow> ui_effect list" where
  "handleSearch env ls server newQuery =
     SetLoading True #
     SetQuery newQuery #
     Request (outgoing env ls (QueryText newQuery None None)) #
     (case axios_request env ls server (QueryText newQuery None None) of
        None \<Rightarrow> []
      | Some (Inr d) \<Rightarrow> [SetResults d, SetLoading False]
      | Some (Inl err) \<Rightarrow> [ConsoleError (ApiError err), SetLoading False])"

text \<open>
  A component wired to its handler: the effects of the handler calls the component makes.
  The text tab of the home page passes \<open>handleTextSearch\<close> and the page's \<open>loading\<close> to
  SearchInput, the results page passes \<open>handleSearch\<close>; the voice tab passes
  \<open>handleVoiceSearch\<close> to VoiceRecorder.
\<close>

definition submit_with :: "(jsstring \<Rightarrow> 'e list) \<Rightarrow> jsstring \<Rightarrow> bool \<Rightarrow> 'e list" where
  "submit_with onSearch query loading =
     concat (map (\<lambda>e. case e of OnSearch q \<Rightarrow> onSearch q | PreventDefault \<Rightarrow> [])
       (handleSubmit query loading))"

definition text_tab_submit ::
  "jsstring option \<Rightarrow> (string \<rightharpoonup> jsstring) \<Rightarrow> (request_config \<Rightarrow> server_behaviour) \<Rightarrow>
     jsstring \<Rightarrow> bool \<Rightarrow> ui_effect list" where
  "text_tab_submit env ls server query loading =
     submit_with (handleTextSearch env ls server) query loading"

definition voice_tab_stop ::
  "jsstring option \<Rightarrow> (string \<rightharpoonup> jsstring) \<Rightarrow> (request_config \<Rightarrow> server_behaviour) \<Rightarrow>
     blob list \<Rightarrow> ui_effect list" where
  "voice_tab_stop env ls server events =
     handleVoiceSearch env ls server (onstop (recorded_chunks events))"

definition search_page_submit ::
  "jsstring option \<Rightarrow> (string \<rightharpoonup> jsstring) \<Rightarrow> (request_config \<Rightarrow> server_behaviour) \<Rightarrow>
     jsstring \<Rightarrow> bool \<Rightarrow> ui_effect list" where
  "search_page_submit env ls server query loading =
     submit_with (handleSearch env ls server) query loading"

text \<open>The requests among the effects, and whether an error was reported to the user.\<close>

fun requests :: "ui_effect list \<Rightarrow> request_config list" where
  "requests [] = []"
| "requests (Request r # es) = r # requests es"
| "requests (e # es) = requests es"

fun is_error_report :: "ui_effect \<Rightarrow> bool" where
  "is_error_report (ToastError m) = True"
| "is_error_report (ConsoleError e) = True"
| "is_error_report e = False"

definition fails_with_error :: "ui_effect list \<Rightarrow> bool" where
  "fails_with_error es \<longleftrightarrow> list_ex is_error_report es"


section \<open>ImageUpload.jsx\<close>

text \<open>
  \<open>Number.prototype.toFixed(0)\<close> on \<open>maxSize / 1024 / 1024\<close> for a size in bytes: the
  nearest integer, the larger one at a tie, in decimal digits (the exponent notation of
  values from \<open>10^21\<close> on is not modelled).
\<close>

fun nat_digits :: "nat \<Rightarrow> string" where
  "nat_digits n =
     (if n < 10 then [''0123456789'' ! n]
      else nat_digits (n div 10) @ [''0123456789'' ! (n mod 10)])"

definition megabytes_toFixed0 :: "nat \<Rightarrow> string" where
  "megabytes_toFixed0 maxSize = nat_digits ((2 * maxSize + 1048576) div 2097152)"

definition default_maxSize :: nat where
  "default_maxSize = 5242880"

record upload_state =
  us_preview :: "jsstring option"
  us_error :: "jsstring option"

text \<open>
  The outcome of \<open>onDrop\<close>: the new state, the calls of \<open>onImageSelect\<close> in order, and the
  file handed to the FileReader (whose \<open>onload\<close> sets the preview later).
\<close>

record drop_result =
  dr_state :: upload_state
  dr_selected :: "js_file option list"
  dr_reading :: "js_file option"

definition onDrop :: "nat \<Rightarrow> upload_state \<Rightarrow> js_file list \<Rightarrow> js_file list \<Rightarrow> drop_result" where
  "onDrop maxSize st acceptedFiles rejectedFiles =
     (case rejectedFiles of
        rejection # _ \<Rightarrow>
          \<lparr>dr_state = st\<lparr>us_error :=
               Some (if file_size rejection > maxSize
                     then lit ''File too large. Maximum size is '' @
                          lit (megabytes_toFixed0 maxSize) @ lit ''MB''
                     else lit ''Invalid file type. Please upload an image.'')\<rparr>,
           dr_selected = [], dr_reading = None\<rparr>
      | [] \<Rightarrow>
          (case acceptedFiles of
             f # _ \<Rightarrow>
               \<lparr>dr_state = st\<lparr>us_error := None\<rparr>, dr_selected = [Some f], dr_reading = Some f\<rparr>
           | [] \<Rightarrow>
               \<lparr>dr_state = st\<lparr>us_error := None\<rparr>, dr_selected = [], dr_reading = None\<rparr>))"

definition reader_onload :: "upload_state \<Rightarrow> jsstring \<Rightarrow> upload_state" where
  "reader_onload st result = st\<lparr>us_preview := Some result\<rparr>"

definition clearImage :: "upload_state \<Rightarrow> upload_state \<times> js_file option list" where
  "clearImage st = (st\<lparr>us_preview := None, us_error := None\<rparr>, [None])"

text \<open>
  The component does not inspect a dropped file itself: \<open>useDropzone\<close> (react-dropzone,
  configured with \<open>accept\<close>, \<open>maxSize\<close> and \<open>multiple: false\<close>) sorts the dropped files into
  accepted and rejected ones and calls \<open>onDrop\<close> with both lists. That library is not
  code of this repository; it is modelled from its documented behaviour, with the check
  of a file against the \<open>accept\<close> setting as the parameter \<open>accepts\<close>. A file is rejected
  when it fails that check or is larger than \<open>maxSize\<close>; when more than one file passes,
  all of them are rejected as well.
\<close>

definition dropzone_partition ::
  "(js_file \<Rightarrow> bool) \<Rightarrow> nat \<Rightarrow> js_file list \<Rightarrow> js_file list \<times> js_file list" where
  "dropzone_partition accepts maxSize files =
     (let ok = (\<lambda>f. accepts f \<and> file_size f \<le> maxSize);
          acc = filter ok files;
          rej = filter (\<lambda>f. \<not> ok f) files
      in if length acc > 1 then ([], rej @ acc) else (acc, rej))"

definition drop_files ::
  "(js_file \<Rightarrow> bool) \<Rightarrow> nat \<Rightarrow> upload_state \<Rightarrow> js_file list \<Rightarrow> drop_result" where
  "drop_files accepts maxSize st files =
     (case dropzone_partition accepts maxSize files of
        (acceptedFiles, rejectedFiles) \<Rightarrow> onDrop maxSize st acceptedFiles rejectedFiles)"


section \<open>ProductCard.jsx\<close>

text \<open>
  \<open>renderRating\<close> pushes one star for each \<open>i\<close> from 1 to 5, a filled one (\<open>True\<close>)
  when \<open>i <= rating\<close> and an outline (\<open>False\<close>) otherwise.
\<close>

definition renderRating :: "rat \<Rightarrow> bool list" where
  "renderRating rating = map (\<lambda>i. of_nat i \<le> rating) [1..<6]"

text \<open>Reading a property of a value that is not \<open>null\<close>.\<close>

definition member :: "json \<Rightarrow> string \<Rightarrow> json option" where
  "member v k = (case v of JObj kvs \<Rightarrow> map_of kvs k | _ \<Rightarrow> None)"

definition truthy_opt :: "json option \<Rightarrow> bool" where
  "truthy_opt v = (case v of None \<Rightarrow> False | Some x \<Rightarrow> truthy x)"

text \<open>
  What the card shows for an entry of the result list. The fields are read from
  \<open>product.product || product\<close>; the price is the value of \<open>best_price\<close> (its formatting
  to two decimals is left out, as are the image and the match score badge); the stars
  and the review count are the ones written in the component.
\<close>

record card_view =
  cv_name :: "json option"
  cv_description :: "json option"
  cv_category :: "json option"
  cv_brand :: "json option"
  cv_match_reason :: "json option"
  cv_best_price :: "json option"
  cv_stars :: "bool list"
  cv_review_count :: string

definition ProductCard :: "json \<Rightarrow> json option \<Rightarrow> card_view" where
  "ProductCard product matchReason =
     (let inner = (case member product ''product'' of
                     None \<Rightarrow> product
                   | Some p \<Rightarrow> if truthy p then p else product);
          nested = (case member product ''product'' of
                      None \<Rightarrow> None
                    | Some p \<Rightarrow> member p ''best_price'');
          bestPrice = (if truthy_opt nested then nested else member product ''best_price'');
          features = member inner ''features''
      in \<lparr>cv_name = member inner ''name'',
          cv_description = member inner ''description'',
          cv_category = member inner ''category'',
          cv_brand = (case features of
                        None \<Rightarrow> None
                      | Some fs \<Rightarrow> if truthy_opt (member fs ''brand'')
                                  then member fs ''brand'' else None),
          cv_match_reason = (if truthy_opt matchReason then matchReason else None),
          cv_best_price = (if truthy_opt bestPrice then bestPrice else None),
          cv_stars = renderRating 4,
          cv_review_count = ''(128)''\<rparr>)"


section \<open>Intent gate of the orchestrator\<close>

text \<open>
  Modelled from the spec: the intent classifier and the tool executor of the backend
  orchestrator are not among the sources. The model follows sections 3, 4.4 and 4.5 of
  the specification: an intent has a kind and a confidence; when the confidence is below
  the configured threshold (default 0.5) the kind is forced to \<open>clarify\<close> and the turn
  does not proceed to tool execution; otherwise every tool whose \<open>can_handle\<close> accepts
  the intent is executed and one invocation is recorded for each.
\<close>

datatype intent_kind = Search | Compare | Recommend | Purchase | Clarify | Unknown

record intent =
  kind :: intent_kind
  confidence :: rat

record tool_invocation =
  ti_tool :: string
  ti_success :: bool

record tool =
  tool_name :: string
  can_handle :: "intent \<Rightarrow> bool"
  execute :: "intent \<Rightarrow> tool_invocation"

record turn =
  turn_intent :: intent
  turn_invocations :: "tool_invocation list"
  turn_clarification :: bool

definition default_threshold :: rat where
  "default_threshold = 1 / 2"

definition apply_threshold :: "rat \<Rightarrow> intent \<Rightarrow> intent" where
  "apply_threshold threshold i =
     (if confidence i < threshold then i\<lparr>kind := Clarify\<rparr> else i)"

definition run_turn :: "rat \<Rightarrow> tool list \<Rightarrow> intent \<Rightarrow> turn" where
  "run_turn threshold tools classified =
     (let i = apply_threshold threshold classified
      in if confidence classified < threshold
         then \<lparr>turn_intent = i, turn_invocations = [], turn_clarification = True\<rparr>
         else \<lparr>turn_intent = i,
               turn_invocations = map (\<lambda>t. execute t i) (filter (\<lambda>t. can_handle t i) tools),
               turn_clarification = False\<rparr>)"


section \<open>Merging and ranking of tool results\<close>

text \<open>
  Modelled from the spec: the merge step of the tool executor is not among the sources.
  The model follows section 4.5 of the specification: the combined score of a result is
  \<open>\<alpha> * semantic-similarity + (1 - \<alpha>) * keyword-match\<close>; results are de-duplicated by
  product id, keeping the highest score and concatenating the distinct match reasons;
  the final order is descending combined score, ties broken by ascending product id in
  lexicographic order.
\<close>

record tool_result =
  tr_id :: string
  tr_semantic :: rat
  tr_keyword :: rat
  tr_reason :: string

record merged_product =
  m_id :: string
  m_score :: rat
  m_reasons :: "string list"

definition default_alpha :: rat where
  "default_alpha = 3 / 5"

definition combined_score :: "rat \<Rightarrow> tool_result \<Rightarrow> rat" where
  "combined_score \<alpha> r = \<alpha> * tr_semantic r + (1 - \<alpha>) * tr_keyword r"

definition entry_of :: "rat \<Rightarrow> tool_result \<Rightarrow> merged_product" where
  "entry_of \<alpha> r = \<lparr>m_id = tr_id r, m_score = combined_score \<alpha> r, m_reasons = [tr_reason r]\<rparr>"

fun add_entry :: "merged_product \<Rightarrow> merged_product list \<Rightarrow> merged_product list" where
  "add_entry e [] = [e]"
| "add_entry e (m # ms) =
     (if m_id m = m_id e
      then \<lparr>m_id = m_id m, m_score = max (m_score m) (m_score e),
            m_reasons = m_reasons m @ filter (\<lambda>r. r \<notin> set (m_reasons m)) (m_reasons e)\<rparr> # ms
      else m # add_entry e ms)"

definition dedup :: "merged_product list \<Rightarrow> merged_product list" where
  "dedup es = foldl (\<lambda>acc e. add_entry e acc) [] es"

definition rank_key :: "merged_product \<Rightarrow> rat \<times> string" where
  "rank_key m = (- m_score m, m_id m)"

definition rank :: "merged_product list \<Rightarrow> merged_product list" where
  "rank ms = sort_key rank_key ms"

definition merge_results :: "rat \<Rightarrow> tool_result list \<Rightarrow> merged_product list" where
  "merge_results \<alpha> rs = rank (dedup (map (entry_of \<alpha>) rs))"

text \<open>The order the claim describes: \<open>a\<close> is placed before \<open>b\<close>.\<close>

definition ranked_before :: "merged_product \<Rightarrow> merged_product \<Rightarrow> bool" where
  "ranked_before a b \<longleftrightarrow>
     m_score a > m_score b \<or> (m_score a = m_score b \<and> m_id a < m_id b)"


section \<open>Properties of trimming\<close>

lemma dropWhile_decomp:
  "\<exists>pre. s = pre @ dropWhile P s \<and> (\<forall>c \<in> set pre. P c)"
proof -
  have "s = takeWhile P s @ dropWhile P s" by simp
  moreover have "\<forall>c \<in> set (takeWhile P s). P c" by (blast dest: set_takeWhileD)
  ultimately show ?thesis by blast
qed

lemma trimStart_decomp:
  "\<exists>pre. s = pre @ trimStart s \<and> (\<forall>c \<in> set pre. isWhiteSpace c)"
  unfolding trimStart_def by (rule dropWhile_decomp)

lemma trimEnd_decomp:
  "\<exists>post. s = trimEnd s @ post \<and> (\<forall>c \<in> set post. isWhiteSpace c)"
proof -
  obtain pre where p: "rev s = pre @ dropWhile isWhiteSpace (rev s)"
    and w: "\<forall>c \<in> set pre. isWhiteSpace c"
    using dropWhile_decomp [of "rev s" isWhiteSpace] by blast
  from p have "rev (rev s) = rev (pre @ dropWhile isWhiteSpace (rev s))" by simp
  then have "s = trimEnd s @ rev pre" by (simp add: trimEnd_def)
  moreover from w have "\<forall>c \<in> set (rev pre). isWhiteSpace c" by simp
  ultimately show ?thesis by blast
qed

lemma trim_decomp:
  "\<exists>pre post. s = pre @ trim s @ post \<and>
     (\<forall>c \<in> set pre. isWhiteSpace c) \<and> (\<forall>c \<in> set post. isWhiteSpace c)"
proof -
  obtain pre where p: "s = pre @ trimStart s" and wp: "\<forall>c \<in> set pre. isWhiteSpace c"
    using trimStart_decomp by blast
  obtain post where q: "trimStart s = trimEnd (trimStart s) @ post"
    and wq: "\<forall>c \<in> set post. isWhiteSpace c"
    using trimEnd_decomp by blast
  from p q have "s = pre @ trim s @ post" by (simp add: trim_def)
  with wp wq show ?thesis by blast
qed

lemma trimStart_hd: "trimStart s \<noteq> [] \<Longrightarrow> \<not> isWhiteSpace (hd (trimStart s))"
  unfolding trimStart_def by (rule hd_dropWhile)

lemma trimEnd_last: "trimEnd s \<noteq> [] \<Longrightarrow> \<not> isWhiteSpace (last (trimEnd s))"
proof -
  assume ne: "trimEnd s \<noteq> []"
  then have "dropWhile isWhiteSpace (rev s) \<noteq> []" by (simp add: trimEnd_def)
  then have "\<not> isWhiteSpace (hd (dropWhile isWhiteSpace (rev s)))" by (rule hd_dropWhile)
  moreover have "last (trimEnd s) = hd (dropWhile isWhiteSpace (rev s))"
    by (simp add: trimEnd_def last_rev)
  ultimately show ?thesis by simp
qed

lemma trimEnd_hd:
  assumes "trimEnd t \<noteq> []" and "t \<noteq> [] \<Longrightarrow> \<not> isWhiteSpace (hd t)"
  shows "\<not> isWhiteSpace (hd (trimEnd t))"
proof -
  obtain post where d: "t = trimEnd t @ post" using trimEnd_decomp by blast
  from assms(1) have "hd (trimEnd t @ post) = hd (trimEnd t)" by (rule hd_append2)
  with d have "hd t = hd (trimEnd t)" by simp
  moreover from assms(1) have "trimEnd t @ post \<noteq> []" by simp
  with d have "t \<noteq> []" by simp
  ultimately show ?thesis using assms(2) by simp
qed

lemma trim_ends:
  assumes "trim s \<noteq> []"
  shows "\<not> isWhiteSpace (hd (trim s)) \<and> \<not> isWhiteSpace (last (trim s))"
proof
  show "\<not> isWhiteSpace (hd (trim s))"
    using assms trimEnd_hd [of "trimStart s"] trimStart_hd [of s] by (simp add: trim_def)
  show "\<not> isWhiteSpace (last (trim s))"
    using assms trimEnd_last [of "trimStart s"] by (simp add: trim_def)
qed

lemma trim_all_white: "(\<forall>c \<in> set s. isWhiteSpace c) \<Longrightarrow> trim s = []"
proof -
  assume "\<forall>c \<in> set s. isWhiteSpace c"
  then have e: "dropWhile isWhiteSpace s = []" by (induction s) simp_all
  show ?thesis unfolding trim_def trimStart_def trimEnd_def e by simp
qed

lemma trim_empty_iff: "trim s = [] \<longleftrightarrow> (\<forall>c \<in> set s. isWhiteSpace c)"
proof
  assume e: "trim s = []"
  obtain pre post where d: "s = pre @ trim s @ post"
    and wp: "\<forall>c \<in> set pre. isWhiteSpace c" and wq: "\<forall>c \<in> set post. isWhiteSpace c"
    using trim_decomp by blast
  from d e have "set s = set pre \<union> set post" by (metis append_Nil set_append)
  with wp wq show "\<forall>c \<in> set s. isWhiteSpace c" by blast
next
  assume "\<forall>c \<in> set s. isWhiteSpace c"
  then show "trim s = []" by (rule trim_all_white)
qed


section \<open>Claims about SearchInput\<close>

text \<open>
  C10. For every text search submitted through the search input, the query string
  delivered to the search handler is the user's input with leading and trailing
  whitespace removed: every delivered string \<open>q\<close> splits the input as
  \<open>pre @ q @ post\<close> where \<open>pre\<close> and \<open>post\<close> consist of whitespace only and \<open>q\<close> neither
  starts nor ends with whitespace. While a previous search is still loading, no
  submission reaches the search handler.
\<close>

theorem handleSubmit_delivers_trimmed:
  "(\<forall>q \<in> set (searches (handleSubmit query loading)).
      q = trim query \<and> q \<noteq> [] \<and>
      (\<exists>pre post. query = pre @ q @ post \<and>
         (\<forall>c \<in> set pre. isWhiteSpace c) \<and> (\<forall>c \<in> set post. isWhiteSpace c)) \<and>
      \<not> isWhiteSpace (hd q) \<and> \<not> isWhiteSpace (last q)) \<and>
   (loading \<longrightarrow> searches (handleSubmit query loading) = []) \<and>
   (\<not> loading \<and> trim query \<noteq> [] \<longrightarrow>
      searches (handleSubmit query loading) = [trim query])"
proof (intro conjI ballI impI)
  fix q assume "q \<in> set (searches (handleSubmit query loading))"
  then have q: "q = trim query" and ne: "trim query \<noteq> []"
    by (auto simp: handleSubmit_def searches_def truthy_str_def split: if_splits)
  show "q = trim query" by (rule q)
  show "q \<noteq> []" using q ne by simp
  show "\<exists>pre post. query = pre @ q @ post \<and>
         (\<forall>c \<in> set pre. isWhiteSpace c) \<and> (\<forall>c \<in> set post. isWhiteSpace c)"
    unfolding q by (rule trim_decomp)
  show "\<not> isWhiteSpace (hd q)" using trim_ends [OF ne] q by simp
  show "\<not> isWhiteSpace (last q)" using trim_ends [OF ne] q by simp
next
  assume loading
  then show "searches (handleSubmit query loading) = []"
    by (simp add: handleSubmit_def searches_def)
next
  assume "\<not> loading \<and> trim query \<noteq> []"
  then show "searches (handleSubmit query loading) = [trim query]"
    by (simp add: handleSubmit_def searches_def truthy_str_def)
qed

theorem handleSubmit_delivers_trimmed_witness:
  "[114, 101, 100] \<in> set (searches (handleSubmit [32, 114, 101, 100, 9, 32] False)) \<and>
   trim [32, 114, 101, 100, 9, 32] = [114, 101, 100] \<and>
   \<not> isWhiteSpace (hd [114, 101, 100]) \<and> \<not> isWhiteSpace (last [114, 101, 100]) \<and>
   searches (handleSubmit [32, 114, 101, 100, 9, 32] True) = []"
proof -
  have t: "trim [32, 114, 101, 100, 9, 32] = [114, 101, 100]"
    by (simp add: trim_def trimStart_def trimEnd_def isWhiteSpace_def)
  have m: "[114, 101, 100] \<in> set (searches (handleSubmit [32, 114, 101, 100, 9, 32] False))"
    by (simp add: handleSubmit_def searches_def truthy_str_def t)
  from handleSubmit_delivers_trimmed [of "[32, 114, 101, 100, 9, 32]" False] m
  have "\<not> isWhiteSpace (hd [114, 101, 100]) \<and> \<not> isWhiteSpace (last [114, 101, 100])"
    by blast
  moreover from handleSubmit_delivers_trimmed [of "[32, 114, 101, 100, 9, 32]" True]
  have "searches (handleSubmit [32, 114, 101, 100, 9, 32] True) = []" by blast
  ultimately show ?thesis using t m by blast
qed


section \<open>Requests built by the API client\<close>

lemma request_of_no_session_header: "headers (request_of env c) ''X-Session-ID'' = None"
  by (cases c)
     (simp_all add: queryText_def queryImage_def queryVoice_def queryMultimodal_def
        getProduct_def getProductReviews_def getProductPrices_def getRecommendations_def
        healthCheck_def api_post_def api_get_def api_def multipart_def map_add_def)

lemma request_of_timeout: "timeout (request_of env c) = 30000"
  by (cases c)
     (simp_all add: queryText_def queryImage_def queryVoice_def queryMultimodal_def
        getProduct_def getProductReviews_def getProductPrices_def getRecommendations_def
        healthCheck_def api_post_def api_get_def api_def)

lemma request_interceptor_timeout: "timeout (request_interceptor ls cfg) = timeout cfg"
  by (simp add: request_interceptor_def split: option.splits)

lemma outgoing_timeout: "timeout (outgoing env ls c) = 30000"
  by (simp add: outgoing_def request_interceptor_timeout request_of_timeout)

text \<open>
  C7. A text query issued with only the query text (as both pages do) posts to
  \<open>/api/query/text\<close> a body with exactly the fields \<open>query_text\<close>, \<open>query_type: "text"\<close>,
  \<open>filters\<close> and \<open>max_results\<close>, where \<open>filters\<close> is the empty object and \<open>max_results\<close> is
  10; this is the one request each of the two text search handlers issues.
\<close>

theorem queryText_request_body:
  "data (outgoing env ls (QueryText q None None)) =
     JsonBody (JObj
       [(''query_text'', JStr q),
        (''query_type'', JStr (lit ''text'')),
        (''filters'', JObj []),
        (''max_results'', JNum 10)]) \<and>
   req_method (outgoing env ls (QueryText q None None)) = POST \<and>
   url (outgoing env ls (QueryText q None None)) = lit ''/api/query/text'' \<and>
   requests (handleTextSearch env ls server q) = [outgoing env ls (QueryText q None None)] \<and>
   requests (handleSearch env ls server q) = [outgoing env ls (QueryText q None None)]"
  by (simp add: outgoing_def request_interceptor_def queryText_def api_post_def default_arg_def
      handleTextSearch_def handleSearch_def split: option.splits sum.splits)


section \<open>Voice upload\<close>

lemma recorded_chunks_aux:
  "foldl ondataavailable acc events = acc @ filter (\<lambda>b. blob_size b > 0) events"
  by (induction events arbitrary: acc) (simp_all add: ondataavailable_def)

lemma recorded_chunks_filter: "recorded_chunks events = filter (\<lambda>b. blob_size b > 0) events"
  by (simp add: recorded_chunks_def recorded_chunks_aux)

lemma concat_nonempty_bytes:
  "concat (map blob_bytes (filter (\<lambda>b. blob_size b > 0) events)) = concat (map blob_bytes events)"
  by (induction events) (simp_all add: blob_size_def)

text \<open>
  C8. Whatever pieces the MediaRecorder delivered, and whatever their types, stopping the
  recorder issues one request to \<open>/api/query/voice\<close> whose \<open>audio\<close> part has the filename
  \<open>recording.wav\<close> and the type \<open>audio/wav\<close>, and carries the recorded bytes as they are.
\<close>

theorem voice_upload_is_recording_wav:
  "requests (voice_tab_stop env ls server events) =
     [outgoing env ls (QueryVoice (onstop (recorded_chunks events)) None)] \<and>
   url (outgoing env ls (QueryVoice (onstop (recorded_chunks events)) None)) =
     lit ''/api/query/voice'' \<and>
   data (outgoing env ls (QueryVoice (onstop (recorded_chunks events)) None)) =
     FormBody
       [FFile ''audio''
          \<lparr>blob_type = ''audio/wav'', blob_bytes = concat (map blob_bytes events)\<rparr>
          (lit ''recording.wav''),
        FValue ''max_results'' (JNum 10)]"
  by (simp add: voice_tab_stop_def handleVoiceSearch_def outgoing_def request_interceptor_def
      queryVoice_def api_post_def default_arg_def onstop_def new_Blob_def
      recorded_chunks_filter concat_nonempty_bytes split: option.splits sum.splits)


section \<open>The session header\<close>

text \<open>
  A stored session id that is the empty string is present in \<open>localStorage\<close>, yet the
  interceptor's test \<open>if (sessionId)\<close> fails for it and no header is attached.
\<close>

theorem session_header_counterexample:
  "(Map.empty(''session_id'' \<mapsto> [])) ''session_id'' = Some [] \<and>
   headers (outgoing None (Map.empty(''session_id'' \<mapsto> [])) HealthCheck) ''X-Session-ID'' = None"
  by (simp add: outgoing_def request_interceptor_def truthy_str_def healthCheck_def api_get_def
      api_def)

text \<open>
  C9 (amended). For every request made through the exported functions of the client, the
  \<open>X-Session-ID\<close> header is attached if and only if \<open>localStorage\<close> holds a non-empty
  \<open>session_id\<close> at that moment, and its value is the stored one; every other header and
  every other part of the request is left as the call built it.
\<close>

theorem session_header_iff_nonempty:
  "headers (outgoing env ls c) ''X-Session-ID'' =
     (case ls ''session_id'' of
        None \<Rightarrow> None
      | Some s \<Rightarrow> if s = [] then None else Some s) \<and>
   (\<forall>k. k \<noteq> ''X-Session-ID'' \<longrightarrow>
      headers (outgoing env ls c) k = headers (request_of env c) k) \<and>
   outgoing env ls c = (request_of env c)\<lparr>headers := headers (outgoing env ls c)\<rparr>"
  by (simp add: outgoing_def request_interceptor_def truthy_str_def
      request_of_no_session_header split: option.splits)

theorem session_header_iff_nonempty_witness:
  "''Content-Type'' \<noteq> ''X-Session-ID'' \<and>
   headers (outgoing None (Map.empty(''session_id'' \<mapsto> lit ''s1'')) HealthCheck) ''X-Session-ID'' =
     Some (lit ''s1'') \<and>
   headers (outgoing None (Map.empty(''session_id'' \<mapsto> lit ''s1'')) HealthCheck) ''Content-Type'' =
     Some (lit ''application/json'')"
proof -
  have k: "''Content-Type'' \<noteq> ''X-Session-ID''" by simp
  have h: "headers (request_of None HealthCheck) ''Content-Type'' = Some (lit ''application/json'')"
    by (simp add: healthCheck_def api_get_def api_def)
  from session_header_iff_nonempty [of None "Map.empty(''session_id'' \<mapsto> lit ''s1'')" HealthCheck]
  have "headers (outgoing None (Map.empty(''session_id'' \<mapsto> lit ''s1'')) HealthCheck) ''X-Session-ID'' =
          Some (lit ''s1'')"
    and "headers (outgoing None (Map.empty(''session_id'' \<mapsto> lit ''s1'')) HealthCheck) ''Content-Type'' =
          headers (request_of None HealthCheck) ''Content-Type''"
    by (simp_all add: lit_def)
  with k h show ?thesis by simp
qed


section \<open>The request deadline\<close>

text \<open>
  C5. Every request made through the shared client carries the timeout of 30000 ms: a
  call whose response has not arrived within 30000 ms (or never arrives) ends with a
  timeout error, and no call waits indefinitely.
\<close>

theorem api_call_times_out:
  "timeout (outgoing env ls c) = 30000 \<and>
   axios_request env ls server c \<noteq> None \<and>
   (server (outgoing env ls c) = NoReply \<or>
    (\<exists>ms status payload. server (outgoing env ls c) = Reply ms status payload \<and> 30000 < ms)
    \<longrightarrow> axios_request env ls server c = Some (Inl (TimeoutError 30000)))"
  by (auto simp: axios_request_def axios_dispatch_def outgoing_timeout split: server_behaviour.splits)

theorem api_call_times_out_witness:
  "axios_request None Map.empty (\<lambda>r. Reply 30001 200 JNull) HealthCheck =
     Some (Inl (TimeoutError 30000)) \<and>
   axios_request None Map.empty (\<lambda>r. NoReply) (QueryText (lit ''shoes'') None None) =
     Some (Inl (TimeoutError 30000))"
proof -
  have "(\<lambda>r. Reply 30001 200 JNull) (outgoing None Map.empty HealthCheck) = Reply 30001 200 JNull \<and>
        (30000::nat) < 30001"
    by simp
  with api_call_times_out [of None Map.empty HealthCheck "\<lambda>r. Reply 30001 200 JNull"]
  have a: "axios_request None Map.empty (\<lambda>r. Reply 30001 200 JNull) HealthCheck =
             Some (Inl (TimeoutError 30000))"
    by blast
  from api_call_times_out [of None Map.empty "QueryText (lit ''shoes'') None None" "\<lambda>r. NoReply"]
  have b: "axios_request None Map.empty (\<lambda>r. NoReply) (QueryText (lit ''shoes'') None None) =
             Some (Inl (TimeoutError 30000))"
    by simp
  from a b show ?thesis by simp
qed


section \<open>Queries without a modality\<close>

lemma handleSubmit_blank:
  "(\<forall>c \<in> set query. isWhiteSpace c) \<Longrightarrow> handleSubmit query loading = [PreventDefault]"
  by (simp add: handleSubmit_def truthy_str_def trim_all_white)

text \<open>
  Submitting a whitespace-only text reports no error of any kind: the submission is
  dropped silently.
\<close>

theorem blank_text_not_reported_counterexample:
  "list_all isWhiteSpace [32, 9] \<and>
   \<not> fails_with_error (text_tab_submit None Map.empty (\<lambda>r. NoReply) [32, 9] False)"
  by (simp add: isWhiteSpace_def text_tab_submit_def submit_with_def handleSubmit_def
      truthy_str_def trim_def trimStart_def trimEnd_def fails_with_error_def)

text \<open>
  C1 (amended). A submission whose text is empty or whitespace-only, and an image
  selection without a file, are ignored silently: the handler is not run, no request is
  issued to any query endpoint, and no error is reported.
\<close>

theorem no_modality_no_request:
  "((\<forall>c \<in> set query. isWhiteSpace c) \<longrightarrow>
      submit_with onSearch query loading = [] \<and>
      text_tab_submit env ls server query loading = [] \<and>
      requests (text_tab_submit env ls server query loading) = [] \<and>
      \<not> fails_with_error (text_tab_submit env ls server query loading) \<and>
      search_page_submit env ls server query loading = []) \<and>
   handleImageSearch env ls server None = [] \<and>
   requests (handleImageSearch env ls server None) = [] \<and>
   \<not> fails_with_error (handleImageSearch env ls server None)"
  by (simp add: submit_with_def text_tab_submit_def search_page_submit_def handleSubmit_blank
      handleImageSearch_def fails_with_error_def)

theorem no_modality_no_request_witness:
  "list_all isWhiteSpace [32, 9] \<and>
   text_tab_submit None Map.empty (\<lambda>r. NoReply) [32, 9] False = [] \<and>
   requests (text_tab_submit None Map.empty (\<lambda>r. NoReply) [32, 9] False) = []"
proof -
  have w: "\<forall>c \<in> set [32, 9]. isWhiteSpace c" by (simp add: isWhiteSpace_def)
  with no_modality_no_request [of "[32, 9]" "\<lambda>q. []" False None Map.empty "\<lambda>r. NoReply"]
  have "text_tab_submit None Map.empty (\<lambda>r. NoReply) [32, 9] False = [] \<and>
        requests (text_tab_submit None Map.empty (\<lambda>r. NoReply) [32, 9] False) = []"
    by blast
  with w show ?thesis by (simp add: list_all_iff)
qed

text \<open>
  The voice tab has no such guard: a recording that delivered no data is wrapped in an
  empty Blob and posted.
\<close>

lemma empty_recording_is_posted:
  "recorded_chunks [] = [] \<and> blob_bytes (onstop []) = [] \<and>
   requests (voice_tab_stop env ls server []) = [outgoing env ls (QueryVoice (onstop []) None)]"
  by (simp add: recorded_chunks_def onstop_def new_Blob_def voice_tab_stop_def
      handleVoiceSearch_def split: option.splits sum.splits)


section \<open>Rejected image files\<close>

lemma dropzone_rejects:
  assumes "f \<in> set files" and "file_size f > maxSize \<or> \<not> accepts f"
  shows "snd (dropzone_partition accepts maxSize files) \<noteq> []"
proof -
  from assms have "f \<in> set (filter (\<lambda>f. \<not> (accepts f \<and> file_size f \<le> maxSize)) files)"
    by auto
  then have "filter (\<lambda>f. \<not> (accepts f \<and> file_size f \<le> maxSize)) files \<noteq> []"
    by (metis empty_iff empty_set)
  then show ?thesis by (simp add: dropzone_partition_def Let_def)
qed

lemma onDrop_rejected:
  assumes "rejectedFiles \<noteq> []"
  shows "us_error (dr_state (onDrop maxSize st acceptedFiles rejectedFiles)) \<noteq> None \<and>
         dr_selected (onDrop maxSize st acceptedFiles rejectedFiles) = [] \<and>
         dr_reading (onDrop maxSize st acceptedFiles rejectedFiles) = None \<and>
         us_preview (dr_state (onDrop maxSize st acceptedFiles rejectedFiles)) = us_preview st"
  using assms by (cases rejectedFiles) (simp_all add: onDrop_def)

lemma dropzone_single:
  "dropzone_partition accepts maxSize [f] =
     (if accepts f \<and> file_size f \<le> maxSize then ([f], []) else ([], [f]))"
  by (simp add: dropzone_partition_def Let_def)

lemma five_mb: "megabytes_toFixed0 default_maxSize = ''5''"
  by (simp add: megabytes_toFixed0_def default_maxSize_def)

text \<open>
  C4. When a dropped file is larger than the configured maximum or is not of a supported
  image format, the drop ends with an error message, \<open>onImageSelect\<close> is not called, no
  file is read for a preview, and the preview is unchanged. For a single dropped file
  the message names the size limit when the file is too large and the file type
  otherwise.
\<close>

theorem rejected_image_is_not_selected:
  assumes "f \<in> set files" and "file_size f > maxSize \<or> \<not> accepts f"
  shows "us_error (dr_state (drop_files accepts maxSize st files)) \<noteq> None \<and>
         dr_selected (drop_files accepts maxSize st files) = [] \<and>
         dr_reading (drop_files accepts maxSize st files) = None \<and>
         us_preview (dr_state (drop_files accepts maxSize st files)) = us_preview st \<and>
         us_error (dr_state (drop_files accepts maxSize st [f])) =
           Some (if file_size f > maxSize
                 then lit ''File too large. Maximum size is '' @
                      lit (megabytes_toFixed0 maxSize) @ lit ''MB''
                 else lit ''Invalid file type. Please upload an image.'')"
proof -
  obtain a r where p: "dropzone_partition accepts maxSize files = (a, r)"
    by (cases "dropzone_partition accepts maxSize files")
  with dropzone_rejects [of f files maxSize accepts] assms have "r \<noteq> []" by simp
  from onDrop_rejected [OF this, of maxSize st a] p
  have "us_error (dr_state (drop_files accepts maxSize st files)) \<noteq> None \<and>
         dr_selected (drop_files accepts maxSize st files) = [] \<and>
         dr_reading (drop_files accepts maxSize st files) = None \<and>
         us_preview (dr_state (drop_files accepts maxSize st files)) = us_preview st"
    by (simp add: drop_files_def)
  moreover from assms(2) have "us_error (dr_state (drop_files accepts maxSize st [f])) =
           Some (if file_size f > maxSize
                 then lit ''File too large. Maximum size is '' @
                      lit (megabytes_toFixed0 maxSize) @ lit ''MB''
                 else lit ''Invalid file type. Please upload an image.'')"
    by (auto simp: drop_files_def dropzone_single onDrop_def)
  ultimately show ?thesis by blast
qed

theorem rejected_image_is_not_selected_witness:
  "file_size \<lparr>file_name = lit ''big.png'',
      file_blob = \<lparr>blob_type = ''image/png'', blob_bytes = replicate 6000000 0\<rparr>\<rparr> > default_maxSize \<and>
   dr_selected (drop_files (\<lambda>f. True) default_maxSize \<lparr>us_preview = None, us_error = None\<rparr>
      [\<lparr>file_name = lit ''big.png'',
        file_blob = \<lparr>blob_type = ''image/png'', blob_bytes = replicate 6000000 0\<rparr>\<rparr>]) = [] \<and>
   us_error (dr_state (drop_files (\<lambda>f. True) default_maxSize \<lparr>us_preview = None, us_error = None\<rparr>
      [\<lparr>file_name = lit ''big.png'',
        file_blob = \<lparr>blob_type = ''image/png'', blob_bytes = replicate 6000000 0\<rparr>\<rparr>])) =
     Some (lit ''File too large. Maximum size is 5MB'')"
proof -
  let ?f = "\<lparr>file_name = lit ''big.png'',
      file_blob = \<lparr>blob_type = ''image/png'', blob_bytes = replicate 6000000 0\<rparr>\<rparr>"
  have s: "file_size ?f > default_maxSize"
    by (simp add: file_size_def blob_size_def default_maxSize_def)
  have m: "?f \<in> set [?f]" by simp
  from s have d: "file_size ?f > default_maxSize \<or> \<not> (\<lambda>f. True) ?f" by simp
  from rejected_image_is_not_selected [OF m d, of "\<lparr>us_preview = None, us_error = None\<rparr>"] s
  show ?thesis by (simp add: five_mb lit_def)
qed


section \<open>The rating shown on a product card\<close>

lemma renderRating_4: "renderRating 4 = [True, True, True, True, False]"
proof -
  have "[1..<6] = [1, 2, 3, 4, 5::nat]" by (simp add: upt_rec)
  then show ?thesis by (simp add: renderRating_def)
qed

text \<open>
  C6. The claim asks that every rating and review count shown comes from the tool
  results. The card shows four filled stars and the count \<open>(128)\<close> for every product and
  reads neither from the product: a result carrying a rating of 2 and 3 reviews is
  displayed with four stars and \<open>(128)\<close>, next to its own name.
\<close>

theorem ProductCard_rating_fixed:
  "cv_stars (ProductCard product matchReason) = [True, True, True, True, False] \<and>
   cv_review_count (ProductCard product matchReason) = ''(128)'' \<and>
   cv_stars (ProductCard
      (JObj [(''id'', JStr (lit ''p1'')), (''name'', JStr (lit ''Jacket'')),
             (''rating'', JNum 2), (''review_count'', JNum 3)]) None) =
     [True, True, True, True, False] \<and>
   cv_name (ProductCard
      (JObj [(''id'', JStr (lit ''p1'')), (''name'', JStr (lit ''Jacket'')),
             (''rating'', JNum 2), (''review_count'', JNum 3)]) None) = Some (JStr (lit ''Jacket''))"
  by (simp add: ProductCard_def Let_def renderRating_4 member_def)


section \<open>Low-confidence intents\<close>

text \<open>
  C2. When the confidence of the classified intent is below the threshold, the kind of
  the turn's intent is \<open>clarify\<close>, the turn is answered by a clarification, and no tool
  invocation is recorded for it.
\<close>

theorem low_confidence_forces_clarify:
  "confidence i < threshold \<Longrightarrow>
   kind (turn_intent (run_turn threshold tools i)) = Clarify \<and>
   turn_invocations (run_turn threshold tools i) = [] \<and>
   turn_clarification (run_turn threshold tools i)"
  by (simp add: run_turn_def apply_threshold_def Let_def)

theorem low_confidence_forces_clarify_witness:
  "confidence \<lparr>kind = Search, confidence = 3 / 10\<rparr> < default_threshold \<and>
   kind (turn_intent (run_turn default_threshold
     [\<lparr>tool_name = ''product_search'', can_handle = (\<lambda>i. True),
       execute = (\<lambda>i. \<lparr>ti_tool = ''product_search'', ti_success = True\<rparr>)\<rparr>]
     \<lparr>kind = Search, confidence = 3 / 10\<rparr>)) = Clarify \<and>
   turn_invocations (run_turn default_threshold
     [\<lparr>tool_name = ''product_search'', can_handle = (\<lambda>i. True),
       execute = (\<lambda>i. \<lparr>ti_tool = ''product_search'', ti_success = True\<rparr>)\<rparr>]
     \<lparr>kind = Search, confidence = 3 / 10\<rparr>) = []"
proof -
  have c: "confidence \<lparr>kind = Search, confidence = 3 / 10\<rparr> < default_threshold"
    by (simp add: default_threshold_def)
  from low_confidence_forces_clarify [OF c] c show ?thesis by blast
qed

text \<open>At or above the threshold the selected tools do run.\<close>

lemma high_confidence_runs_tools:
  "turn_invocations (run_turn default_threshold
     [\<lparr>tool_name = ''product_search'', can_handle = (\<lambda>i. True),
       execute = (\<lambda>i. \<lparr>ti_tool = ''product_search'', ti_success = True\<rparr>)\<rparr>]
     \<lparr>kind = Search, confidence = 9 / 10\<rparr>) =
   [\<lparr>ti_tool = ''product_search'', ti_success = True\<rparr>]"
  by (simp add: run_turn_def apply_threshold_def default_threshold_def Let_def)


section \<open>Order of the merged results\<close>

lemma add_entry_ids: "set (map m_id (add_entry e ms)) = insert (m_id e) (set (map m_id ms))"
  by (induction ms) auto

lemma add_entry_distinct:
  "distinct (map m_id ms) \<Longrightarrow> distinct (map m_id (add_entry e ms))"
proof (induction ms)
  case Nil
  then show ?case by simp
next
  case (Cons m ms)
  from Cons.prems have d: "distinct (map m_id ms)" and n: "m_id m \<notin> set (map m_id ms)"
    by simp_all
  show ?case
  proof (cases "m_id m = m_id e")
    case True
    with d n show ?thesis by simp
  next
    case False
    with n have "m_id m \<notin> set (map m_id (add_entry e ms))"
      unfolding add_entry_ids by simp
    with False Cons.IH [OF d] show ?thesis by simp
  qed
qed

lemma foldl_add_entry_distinct:
  "distinct (map m_id acc) \<Longrightarrow> distinct (map m_id (foldl (\<lambda>acc e. add_entry e acc) acc es))"
  by (induction es arbitrary: acc) (simp_all add: add_entry_distinct)

lemma dedup_distinct: "distinct (map m_id (dedup es))"
  by (simp add: dedup_def foldl_add_entry_distinct)

lemma rank_key_distinct: "distinct (map m_id ms) \<Longrightarrow> distinct (map rank_key ms)"
proof -
  assume d: "distinct (map m_id ms)"
  have "inj_on rank_key (set ms)"
  proof (rule inj_onI)
    fix a b assume "a \<in> set ms" "b \<in> set ms" "rank_key a = rank_key b"
    then have "m_id a = m_id b" by (simp add: rank_key_def)
    with d \<open>a \<in> set ms\<close> \<open>b \<in> set ms\<close> show "a = b"
      by (simp add: distinct_map inj_on_def)
  qed
  with d show ?thesis by (simp add: distinct_map)
qed

lemma rank_ids_distinct: "distinct (map m_id ms) \<Longrightarrow> distinct (map m_id (rank ms))"
  by (simp add: rank_def distinct_map)

lemma rank_key_less: "rank_key a < rank_key b \<longleftrightarrow> ranked_before a b"
  by (auto simp: rank_key_def ranked_before_def less_prod_def)

lemma rank_strict:
  assumes "distinct (map m_id ms)"
  shows "sorted_wrt (<) (map rank_key (rank ms))"
proof -
  have "sorted (map rank_key (rank ms))" by (simp add: rank_def)
  moreover have "distinct (map rank_key (rank ms))"
    using assms by (intro rank_key_distinct rank_ids_distinct)
  ultimately show ?thesis by (simp add: strict_sorted_iff)
qed

lemma rank_ranked: "distinct (map m_id ms) \<Longrightarrow> sorted_wrt ranked_before (rank ms)"
  using rank_strict [of ms] by (simp add: sorted_wrt_map rank_key_less)


lemma score_map_add_entry:
  "map_of (map (\<lambda>m. (m_id m, m_score m)) (add_entry e ms)) =
   (map_of (map (\<lambda>m. (m_id m, m_score m)) ms))
     (m_id e \<mapsto> (case map_of (map (\<lambda>m. (m_id m, m_score m)) ms) (m_id e) of
                   None \<Rightarrow> m_score e
                 | Some s \<Rightarrow> max s (m_score e)))"
proof (induction ms)
  case Nil
  then show ?case by simp
next
  case (Cons m ms)
  show ?case
  proof (cases "m_id m = m_id e")
    case True
    then show ?thesis by (auto simp: fun_eq_iff)
  next
    case False
    then show ?thesis by (auto simp: Cons.IH fun_eq_iff)
  qed
qed

lemma dedup_snoc: "dedup (es @ [e]) = add_entry e (dedup es)"
  by (simp add: dedup_def)

lemma same_id_snoc:
  "{x \<in> set (es @ [e]). m_id x = i} =
     (if m_id e = i then insert e {x \<in> set es. m_id x = i} else {x \<in> set es. m_id x = i})"
  by auto

lemma score_map_dedup:
  "map_of (map (\<lambda>m. (m_id m, m_score m)) (dedup es)) i =
     (if i \<in> m_id ` set es then Some (Max (m_score ` {x \<in> set es. m_id x = i})) else None)"
proof (induction es arbitrary: i rule: rev_induct)
  case Nil
  then show ?case by (simp add: dedup_def)
next
  case (snoc e es)
  show ?case
  proof (cases "i = m_id e")
    case False
    then have "{x \<in> set (es @ [e]). m_id x = i} = {x \<in> set es. m_id x = i}" by auto
    moreover from False have "i \<in> m_id ` set (es @ [e]) \<longleftrightarrow> i \<in> m_id ` set es" by auto
    ultimately show ?thesis using False snoc.IH [of i]
      by (simp add: dedup_snoc score_map_add_entry)
  next
    case True
    let ?S = "{x \<in> set es. m_id x = i}"
    let ?T = "m_score ` {x \<in> set (es @ [e]). m_id x = i}"
    have T: "?T = insert (m_score e) (m_score ` ?S)" using True by auto
    have mem: "i \<in> m_id ` set (es @ [e])" using True by simp
    have lhs: "map_of (map (\<lambda>m. (m_id m, m_score m)) (dedup (es @ [e]))) i =
                 Some (case map_of (map (\<lambda>m. (m_id m, m_score m)) (dedup es)) i of
                         None \<Rightarrow> m_score e
                       | Some s \<Rightarrow> max s (m_score e))"
      using True by (simp add: dedup_snoc score_map_add_entry)
    show ?thesis
    proof (cases "i \<in> m_id ` set es")
      case False
      then have "?S = {}" by auto
      with T have "Max ?T = m_score e" by simp
      moreover from False snoc.IH [of i]
      have "map_of (map (\<lambda>m. (m_id m, m_score m)) (dedup es)) i = None" by simp
      ultimately show ?thesis by (simp only: lhs mem if_True option.case)
    next
      case in_es: True
      then have ne: "m_score ` ?S \<noteq> {}" by auto
      have "finite (m_score ` ?S)" by simp
      then have "Max (insert (m_score e) (m_score ` ?S)) = max (m_score e) (Max (m_score ` ?S))"
        using ne by (rule Max_insert)
      with T have "Max ?T = max (m_score e) (Max (m_score ` ?S))"
        by (simp only:)
      moreover from in_es snoc.IH [of i]
      have "map_of (map (\<lambda>m. (m_id m, m_score m)) (dedup es)) i = Some (Max (m_score ` ?S))"
        by simp
      ultimately show ?thesis by (simp only: lhs mem if_True option.case max.commute)
    qed
  qed
qed

lemma score_map_dedup_set:
  "set es = set es' \<Longrightarrow>
   map_of (map (\<lambda>m. (m_id m, m_score m)) (dedup es)) =
   map_of (map (\<lambda>m. (m_id m, m_score m)) (dedup es'))"
  by (rule ext) (simp add: score_map_dedup)

lemma pairs_of_score_map:
  assumes "distinct (map m_id ms)"
  shows "set (map (\<lambda>m. (m_id m, m_score m)) ms) =
         {(i, s). map_of (map (\<lambda>m. (m_id m, m_score m)) ms) i = Some s}"
proof -
  have "map fst (map (\<lambda>m. (m_id m, m_score m)) ms) = map m_id ms" by simp
  with assms have "distinct (map fst (map (\<lambda>m. (m_id m, m_score m)) ms))"
    by (simp only:)
  then show ?thesis by (auto simp del: set_map map_map)
qed

lemma rank_keys_of_pairs:
  "set (map rank_key (rank ms)) = (\<lambda>(i, s). (- s, i)) ` set (map (\<lambda>m. (m_id m, m_score m)) ms)"
  by (auto simp: rank_def rank_key_def image_iff)

lemma merge_keys_set_invariant:
  assumes "set rs' = set rs"
  shows "map rank_key (merge_results \<alpha> rs') = map rank_key (merge_results \<alpha> rs)"
proof -
  let ?es = "map (entry_of \<alpha>) rs" and ?es' = "map (entry_of \<alpha>) rs'"
  from assms have "set ?es' = set ?es" by simp
  then have "map_of (map (\<lambda>m. (m_id m, m_score m)) (dedup ?es')) =
             map_of (map (\<lambda>m. (m_id m, m_score m)) (dedup ?es))"
    by (rule score_map_dedup_set)
  then have "set (map (\<lambda>m. (m_id m, m_score m)) (dedup ?es')) =
             set (map (\<lambda>m. (m_id m, m_score m)) (dedup ?es))"
    by (simp only: pairs_of_score_map [OF dedup_distinct])
  then have "set (map rank_key (rank (dedup ?es'))) = set (map rank_key (rank (dedup ?es)))"
    by (simp only: rank_keys_of_pairs)
  moreover have "sorted_wrt (<) (map rank_key (rank (dedup ?es')))"
    and "sorted_wrt (<) (map rank_key (rank (dedup ?es)))"
    by (rule rank_strict [OF dedup_distinct])+
  ultimately have "map rank_key (rank (dedup ?es')) = map rank_key (rank (dedup ?es))"
    by (simp only: strict_sorted_iff sorted_distinct_set_unique)
  then show ?thesis by (simp only: merge_results_def)
qed

text \<open>
  C3. The merged list is in descending order of combined score, entries of equal score
  in ascending lexicographic order of product id, and no product id occurs twice, so
  the order leaves nothing to chance: the ids and scores of the merged list are the same
  for every list of tool results with the same elements, in whatever order the tools
  delivered them.
\<close>

theorem merge_results_ranked:
  "sorted_wrt ranked_before (merge_results \<alpha> rs) \<and>
   distinct (map m_id (merge_results \<alpha> rs)) \<and>
   (\<forall>rs'. set rs' = set rs \<longrightarrow>
      map (\<lambda>m. (m_id m, m_score m)) (merge_results \<alpha> rs') =
      map (\<lambda>m. (m_id m, m_score m)) (merge_results \<alpha> rs))"
proof (intro conjI allI impI)
  show "sorted_wrt ranked_before (merge_results \<alpha> rs)"
    unfolding merge_results_def by (rule rank_ranked [OF dedup_distinct])
  show "distinct (map m_id (merge_results \<alpha> rs))"
    unfolding merge_results_def by (rule rank_ids_distinct [OF dedup_distinct])
next
  fix rs' assume "set rs' = set rs"
  then have "map rank_key (merge_results \<alpha> rs') = map rank_key (merge_results \<alpha> rs)"
    by (rule merge_keys_set_invariant)
  then have "map (\<lambda>(ns, i). (i, - ns)) (map rank_key (merge_results \<alpha> rs')) =
             map (\<lambda>(ns, i). (i, - ns)) (map rank_key (merge_results \<alpha> rs))"
    by (rule arg_cong)
  then show "map (\<lambda>m. (m_id m, m_score m)) (merge_results \<alpha> rs') =
             map (\<lambda>m. (m_id m, m_score m)) (merge_results \<alpha> rs)"
    by (simp add: rank_key_def comp_def)
qed

theorem merge_results_ranked_witness:
  "set [\<lparr>tr_id = ''a'', tr_semantic = 1, tr_keyword = 0, tr_reason = ''similar''\<rparr>,
        \<lparr>tr_id = ''b'', tr_semantic = 1 / 2, tr_keyword = 1, tr_reason = ''keyword''\<rparr>,
        \<lparr>tr_id = ''d'', tr_semantic = 1, tr_keyword = 0, tr_reason = ''similar''\<rparr>,
        \<lparr>tr_id = ''b'', tr_semantic = 1, tr_keyword = 0, tr_reason = ''similar''\<rparr>] =
   set [\<lparr>tr_id = ''b'', tr_semantic = 1, tr_keyword = 0, tr_reason = ''similar''\<rparr>,
        \<lparr>tr_id = ''d'', tr_semantic = 1, tr_keyword = 0, tr_reason = ''similar''\<rparr>,
        \<lparr>tr_id = ''a'', tr_semantic = 1, tr_keyword = 0, tr_reason = ''similar''\<rparr>,
        \<lparr>tr_id = ''b'', tr_semantic = 1 / 2, tr_keyword = 1, tr_reason = ''keyword''\<rparr>] \<and>
   map (\<lambda>m. (m_id m, m_score m)) (merge_results default_alpha
       [\<lparr>tr_id = ''a'', tr_semantic = 1, tr_keyword = 0, tr_reason = ''similar''\<rparr>,
        \<lparr>tr_id = ''b'', tr_semantic = 1 / 2, tr_keyword = 1, tr_reason = ''keyword''\<rparr>,
        \<lparr>tr_id = ''d'', tr_semantic = 1, tr_keyword = 0, tr_reason = ''similar''\<rparr>,
        \<lparr>tr_id = ''b'', tr_semantic = 1, tr_keyword = 0, tr_reason = ''similar''\<rparr>]) =
     [(''b'', 7 / 10), (''a'', 3 / 5), (''d'', 3 / 5)]"
proof -
  let ?rs = "[\<lparr>tr_id = ''b'', tr_semantic = 1, tr_keyword = 0, tr_reason = ''similar''\<rparr>,
        \<lparr>tr_id = ''d'', tr_semantic = 1, tr_keyword = 0, tr_reason = ''similar''\<rparr>,
        \<lparr>tr_id = ''a'', tr_semantic = 1, tr_keyword = 0, tr_reason = ''similar''\<rparr>,
        \<lparr>tr_id = ''b'', tr_semantic = 1 / 2, tr_keyword = 1, tr_reason = ''keyword''\<rparr>]"
  let ?rs' = "[\<lparr>tr_id = ''a'', tr_semantic = 1, tr_keyword = 0, tr_reason = ''similar''\<rparr>,
        \<lparr>tr_id = ''b'', tr_semantic = 1 / 2, tr_keyword = 1, tr_reason = ''keyword''\<rparr>,
        \<lparr>tr_id = ''d'', tr_semantic = 1, tr_keyword = 0, tr_reason = ''similar''\<rparr>,
        \<lparr>tr_id = ''b'', tr_semantic = 1, tr_keyword = 0, tr_reason = ''similar''\<rparr>]"
  have e: "set ?rs' = set ?rs" by auto
  have v: "map (\<lambda>m. (m_id m, m_score m)) (merge_results default_alpha ?rs) =
             [(''b'', 7 / 10), (''a'', 3 / 5), (''d'', 3 / 5)]"
    by (simp add: merge_results_def rank_def dedup_def entry_of_def combined_score_def
        default_alpha_def rank_key_def less_eq_prod_def)
  from merge_results_ranked [of default_alpha ?rs] e
  have "map (\<lambda>m. (m_id m, m_score m)) (merge_results default_alpha ?rs') =
        map (\<lambda>m. (m_id m, m_score m)) (merge_results default_alpha ?rs)"
    by blast
  with e v show ?thesis by (simp only:)
qed

end
